theory Spec2Isabelle
  imports Main
begin

section \<open>Python values and exceptions\<close>

text \<open>
  The relay exchanges JSON text with two websockets. A decoded message is the value that
  \<^verbatim>\<open>json.loads\<close> returns: \<open>JNull\<close> is Python's \<^verbatim>\<open>None\<close>, a \<open>JObj\<close> is the dict as an
  association list (looked up with \<open>map_of\<close>). Numbers with a fraction are not part of the
  model. A string is a list of code points below 256.
\<close>

datatype json =
    JNull
  | JBool bool
  | JInt int
  | JStr string
  | JArr "json list"
  | JObj "(string \<times> json) list"

datatype error =
    JSONDecodeError
  | KeyError
  | TypeError
  | ValueError
  | AttributeError
  | BinasciiError

text \<open>\<^verbatim>\<open>d[k]\<close> with a string key: only a dict has string keys.\<close>

fun py_getitem :: "json \<Rightarrow> string \<Rightarrow> error + json" where
  "py_getitem (JObj kvs) k = (case map_of kvs k of None \<Rightarrow> Inl KeyError | Some v \<Rightarrow> Inr v)"
| "py_getitem _ k = Inl TypeError"

text \<open>\<^verbatim>\<open>d.get(k)\<close>: \<^verbatim>\<open>None\<close> for a missing key; no other JSON value has a \<^verbatim>\<open>get\<close>.\<close>

fun py_get :: "json \<Rightarrow> string \<Rightarrow> error + json" where
  "py_get (JObj kvs) k = (case map_of kvs k of None \<Rightarrow> Inr JNull | Some v \<Rightarrow> Inr v)"
| "py_get _ k = Inl AttributeError"

text \<open>\<^verbatim>\<open>k in d\<close> for a dict \<open>d\<close>.\<close>

fun py_in :: "string \<Rightarrow> json \<Rightarrow> bool" where
  "py_in k (JObj kvs) = (map_of kvs k \<noteq> None)"
| "py_in k _ = False"

text \<open>Truth value of a JSON value in a condition.\<close>

fun truthy :: "json \<Rightarrow> bool" where
  "truthy JNull = False"
| "truthy (JBool b) = b"
| "truthy (JInt n) = (n \<noteq> 0)"
| "truthy (JStr s) = (s \<noteq> [])"
| "truthy (JArr xs) = (xs \<noteq> [])"
| "truthy (JObj kvs) = (kvs \<noteq> [])"

subsection \<open>\<^verbatim>\<open>int(x)\<close>\<close>

text \<open>
  \<^verbatim>\<open>int\<close> of a string: surrounding whitespace is dropped, then an optional sign, then decimal
  digits, where single underscores may stand between digits; more than 4300 digits are
  refused. Everything else is a \<^verbatim>\<open>ValueError\<close>.
\<close>

definition py_isspace :: "char \<Rightarrow> bool" where
  "py_isspace c = (of_char c \<in> {9, 10, 11, 12, 13, 32, 133, 160 :: nat})"

definition is_digit :: "char \<Rightarrow> bool" where
  "is_digit c = (48 \<le> (of_char c :: nat) \<and> (of_char c :: nat) \<le> 57)"

definition strip :: "string \<Rightarrow> string" where
  "strip s = rev (dropWhile py_isspace (rev (dropWhile py_isspace s)))"

fun underscores_ok :: "string \<Rightarrow> bool" where
  "underscores_ok [] = False"
| "underscores_ok [c] = is_digit c"
| "underscores_ok (c # d # cs) =
     (if is_digit c then underscores_ok (d # cs)
      else c = CHR ''_'' \<and> is_digit d \<and> underscores_ok (d # cs))"

definition digits_value :: "string \<Rightarrow> int" where
  "digits_value ds = foldl (\<lambda>acc c. 10 * acc + (int (of_char c) - 48)) 0 ds"

definition parse_digits :: "string \<Rightarrow> error + int" where
  "parse_digits s =
     (case s of
        [] \<Rightarrow> Inl ValueError
      | c # cs \<Rightarrow>
          if is_digit c \<and> underscores_ok s then
            (let ds = filter is_digit s
             in if length ds > 4300 then Inl ValueError else Inr (digits_value ds))
          else Inl ValueError)"

definition int_of_str :: "string \<Rightarrow> error + int" where
  "int_of_str s =
     (case strip s of
        [] \<Rightarrow> Inl ValueError
      | c # cs \<Rightarrow>
          if c = CHR ''-'' then (case parse_digits cs of Inl e \<Rightarrow> Inl e | Inr n \<Rightarrow> Inr (- n))
          else if c = CHR ''+'' then parse_digits cs
          else parse_digits (c # cs))"

fun py_int :: "json \<Rightarrow> error + int" where
  "py_int (JInt n) = Inr n"
| "py_int (JBool b) = Inr (if b then 1 else 0)"
| "py_int (JStr s) = int_of_str s"
| "py_int _ = Inl TypeError"

subsection \<open>Base64\<close>

text \<open>
  \<^verbatim>\<open>base64.b64decode\<close> with its default \<^verbatim>\<open>validate=False\<close> and \<^verbatim>\<open>base64.b64encode\<close>,
  which are \<^verbatim>\<open>binascii.a2b_base64\<close> (not strict) and \<^verbatim>\<open>binascii.b2a_base64\<close> without the
  newline. A byte is a natural number below 256; the shifts and masks of the C code are
  written as multiplication, \<open>div\<close> and \<open>mod\<close>.
\<close>

definition b64_alphabet :: string where
  "b64_alphabet = ''ABCDEFGHIJKLMNOPQRSTUVWXYZabcdefghijklmnopqrstuvwxyz0123456789+/''"

fun index_of :: "'a \<Rightarrow> 'a list \<Rightarrow> nat option" where
  "index_of x [] = None"
| "index_of x (y # ys) = (if x = y then Some 0 else map_option Suc (index_of x ys))"

definition table_a2b_base64 :: "char \<Rightarrow> nat option" where
  "table_a2b_base64 c = index_of c b64_alphabet"

definition table_b2a_base64 :: "nat \<Rightarrow> char" where
  "table_b2a_base64 n = b64_alphabet ! n"

text \<open>
  The decoder reads one character at a time. \<open>quad_pos\<close> is the position in the current
  group of four, \<open>leftchar\<close> the bits not yet written, \<open>pads\<close> the padding characters seen
  since the last data character. A character outside the alphabet is skipped; a padding that
  completes a group from position 2 or 3 ends the decoding, whatever follows.
\<close>

fun a2b_loop :: "string \<Rightarrow> nat \<Rightarrow> nat \<Rightarrow> nat \<Rightarrow> nat list \<Rightarrow> error + nat list" where
  "a2b_loop [] quad_pos leftchar pads out =
     (if quad_pos \<noteq> 0 then Inl BinasciiError else Inr out)"
| "a2b_loop (c # cs) quad_pos leftchar pads out =
     (if c = CHR ''='' then
        (if quad_pos \<ge> 2 \<and> quad_pos + (pads + 1) \<ge> 4 then Inr out
         else a2b_loop cs quad_pos leftchar (if quad_pos \<ge> 2 then pads + 1 else pads) out)
      else
        (case table_a2b_base64 c of
           None \<Rightarrow> a2b_loop cs quad_pos leftchar pads out
         | Some this_ch \<Rightarrow>
             if quad_pos = 0 then a2b_loop cs 1 this_ch 0 out
             else if quad_pos = 1 then
               a2b_loop cs 2 (this_ch mod 16) 0 (out @ [leftchar * 4 + this_ch div 16])
             else if quad_pos = 2 then
               a2b_loop cs 3 (this_ch mod 4) 0 (out @ [leftchar * 16 + this_ch div 4])
             else
               a2b_loop cs 0 0 0 (out @ [leftchar * 64 + this_ch])))"

definition a2b_base64 :: "string \<Rightarrow> error + nat list" where
  "a2b_base64 s = a2b_loop s 0 0 0 []"

text \<open>A \<^verbatim>\<open>str\<close> argument is first encoded as ASCII; anything but a string is a type error.\<close>

fun b64decode :: "json \<Rightarrow> error + nat list" where
  "b64decode (JStr s) =
     (if \<forall>c \<in> set s. (of_char c :: nat) < 128 then a2b_base64 s else Inl ValueError)"
| "b64decode _ = Inl TypeError"

fun b64encode :: "nat list \<Rightarrow> string" where
  "b64encode [] = []"
| "b64encode [x] =
     [table_b2a_base64 (x div 4), table_b2a_base64 ((x mod 4) * 16), CHR ''='', CHR ''='']"
| "b64encode [x, y] =
     [table_b2a_base64 (x div 4), table_b2a_base64 ((x mod 4) * 16 + y div 16),
      table_b2a_base64 ((y mod 16) * 4), CHR ''='']"
| "b64encode (x # y # z # bs) =
     [table_b2a_base64 (x div 4), table_b2a_base64 ((x mod 4) * 16 + y div 16),
      table_b2a_base64 ((y mod 16) * 4 + z div 64), table_b2a_base64 (z mod 64)]
     @ b64encode bs"

section \<open>The relay session\<close>

text \<open>
  \<open>relay\<close> holds the \<^verbatim>\<open>session_data\<close> dict of \<^verbatim>\<open>create_session\<close>, the telephony websocket
  and the error log. A websocket is the list of the frames handed to it, oldest first; a
  send appends one frame. \<open>stream_sid\<close> is read with \<^verbatim>\<open>.get\<close> only, so the absent key and
  \<^verbatim>\<open>None\<close> are both \<open>JNull\<close>. \<open>error_log\<close> collects the calls of \<^verbatim>\<open>logger.error\<close>: the
  handler that logged and the exception.
\<close>

record relay =
  session_id :: string
  websocket :: "json list"
  is_active :: bool
  latest_media_timestamp :: int
  last_assistant_item :: json
  mark_queue :: "string list"
  response_start_timestamp :: "int option"
  stream_sid :: json
  twilio_ws :: "json list"
  error_log :: "(string \<times> error) list"

definition create_session :: "string \<Rightarrow> relay" where
  "create_session sid =
     \<lparr>session_id = sid, websocket = [], is_active = True, latest_media_timestamp = 0,
      last_assistant_item = JNull, mark_queue = [], response_start_timestamp = None,
      stream_sid = JNull, twilio_ws = [], error_log = []\<rparr>"

definition log_error :: "string \<Rightarrow> error \<Rightarrow> relay \<Rightarrow> relay" where
  "log_error handler e r = r\<lparr>error_log := error_log r @ [(handler, e)]\<rparr>"

definition ws_send :: "json \<Rightarrow> relay \<Rightarrow> relay" where
  "ws_send frame r = r\<lparr>websocket := websocket r @ [frame]\<rparr>"

definition send_json :: "json \<Rightarrow> relay \<Rightarrow> relay" where
  "send_json frame r = r\<lparr>twilio_ws := twilio_ws r @ [frame]\<rparr>"

subsection \<open>Frames\<close>

definition truncate_event :: "json \<Rightarrow> int \<Rightarrow> json" where
  "truncate_event item elapsed_time =
     JObj [(''type'', JStr ''conversation.item.truncate''), (''item_id'', item),
           (''content_index'', JInt 0), (''audio_end_ms'', JInt elapsed_time)]"

definition clear_event :: "json \<Rightarrow> json" where
  "clear_event sid = JObj [(''event'', JStr ''clear''), (''streamSid'', sid)]"

definition media_event :: "json \<Rightarrow> string \<Rightarrow> json" where
  "media_event sid audio_payload =
     JObj [(''event'', JStr ''media''), (''streamSid'', sid),
           (''media'', JObj [(''payload'', JStr audio_payload)])]"

definition mark_event :: "json \<Rightarrow> json" where
  "mark_event sid =
     JObj [(''event'', JStr ''mark''), (''streamSid'', sid),
           (''mark'', JObj [(''name'', JStr ''responsePart'')])]"

definition audio_append :: "json \<Rightarrow> json" where
  "audio_append payload = JObj [(''type'', JStr ''input_audio_buffer.append''), (''audio'', payload)]"

subsection \<open>Handlers of the model-to-telephony direction\<close>

definition handle_speech_interruption :: "relay \<Rightarrow> relay" where
  "handle_speech_interruption r =
     (case response_start_timestamp r of
        None \<Rightarrow> r
      | Some start \<Rightarrow>
          if mark_queue r = [] then r
          else
            (let elapsed_time = latest_media_timestamp r - start;
                 r1 = (if truthy (last_assistant_item r)
                       then ws_send (truncate_event (last_assistant_item r) elapsed_time) r
                       else r);
                 r2 = send_json (clear_event (stream_sid r1)) r1
             in r2\<lparr>mark_queue := [], last_assistant_item := JNull,
                    response_start_timestamp := None\<rparr>))"

definition send_mark :: "relay \<Rightarrow> relay" where
  "send_mark r =
     (if truthy (stream_sid r)
      then (send_json (mark_event (stream_sid r)) r)\<lparr>mark_queue := mark_queue r @ [''responsePart'']\<rparr>
      else r)"

definition handle_audio_delta :: "json \<Rightarrow> relay \<Rightarrow> relay" where
  "handle_audio_delta response r =
     (case py_getitem response ''delta'' of
        Inl e \<Rightarrow> log_error ''handle_audio_delta'' e r
      | Inr delta \<Rightarrow>
          (case b64decode delta of
             Inl e \<Rightarrow> log_error ''handle_audio_delta'' e r
           | Inr raw \<Rightarrow>
               (let audio_payload = b64encode raw;
                    r1 = send_json (media_event (stream_sid r) audio_payload) r;
                    r2 = (if response_start_timestamp r1 = None
                          then r1\<lparr>response_start_timestamp := Some (latest_media_timestamp r1)\<rparr>
                          else r1)
                in case py_get response ''item_id'' of
                     Inl e \<Rightarrow> log_error ''handle_audio_delta'' e r2
                   | Inr item \<Rightarrow>
                       send_mark (if truthy item then r2\<lparr>last_assistant_item := item\<rparr> else r2))))"

subsection \<open>The telephony-to-model pump\<close>

text \<open>
  A message of a stream is \<open>None\<close> when \<^verbatim>\<open>json.loads\<close> raises on its text, else the decoded
  value. A callback receives the session and may change it or raise. Processing one message
  gives the exception that left the loop body, if any, and the session as it is then:
  assignments made before the exception stay.
\<close>

type_synonym callback = "relay \<Rightarrow> error option \<times> relay"

definition run_callback :: "callback option \<Rightarrow> relay \<Rightarrow> error option \<times> relay" where
  "run_callback cb r = (case cb of None \<Rightarrow> (None, r) | Some f \<Rightarrow> f r)"

definition twilio_message :: "callback option \<Rightarrow> json option \<Rightarrow> relay \<Rightarrow> error option \<times> relay" where
  "twilio_message on_session_start message r =
     (case message of
        None \<Rightarrow> (Some JSONDecodeError, r)
      | Some data \<Rightarrow>
          (case py_getitem data ''event'' of
             Inl e \<Rightarrow> (Some e, r)
           | Inr event \<Rightarrow>
               if event = JStr ''media'' then
                 (case py_getitem data ''media'' of
                    Inl e \<Rightarrow> (Some e, r)
                  | Inr media \<Rightarrow>
                      (case py_getitem media ''timestamp'' of
                         Inl e \<Rightarrow> (Some e, r)
                       | Inr ts \<Rightarrow>
                           (case py_int ts of
                              Inl e \<Rightarrow> (Some e, r)
                            | Inr t \<Rightarrow>
                                (let r1 = r\<lparr>latest_media_timestamp := t\<rparr>
                                 in case py_getitem media ''payload'' of
                                      Inl e \<Rightarrow> (Some e, r1)
                                    | Inr payload \<Rightarrow> (None, ws_send (audio_append payload) r1)))))
               else if event = JStr ''start'' then
                 (case py_getitem data ''start'' of
                    Inl e \<Rightarrow> (Some e, r)
                  | Inr start \<Rightarrow>
                      (case py_getitem start ''streamSid'' of
                         Inl e \<Rightarrow> (Some e, r)
                       | Inr sid \<Rightarrow>
                           run_callback on_session_start
                             (r\<lparr>stream_sid := sid, response_start_timestamp := None,
                                latest_media_timestamp := 0, last_assistant_item := JNull\<rparr>)))
               else if event = JStr ''mark'' then
                 (None, if mark_queue r \<noteq> [] then r\<lparr>mark_queue := tl (mark_queue r)\<rparr> else r)
               else (None, r)))"

fun twilio_loop :: "callback option \<Rightarrow> json option list \<Rightarrow> relay \<Rightarrow> error option \<times> relay" where
  "twilio_loop cb [] r = (None, r)"
| "twilio_loop cb (message # rest) r =
     (case twilio_message cb message r of
        (Some e, r') \<Rightarrow> (Some e, r')
      | (None, r') \<Rightarrow> twilio_loop cb rest r')"

text \<open>The \<^verbatim>\<open>except\<close> clause around the loop logs the exception and raises it again.\<close>

definition handle_twilio_to_openai ::
  "callback option \<Rightarrow> json option list \<Rightarrow> relay \<Rightarrow> error option \<times> relay" where
  "handle_twilio_to_openai on_session_start messages r =
     (case twilio_loop on_session_start messages r of
        (Some e, r') \<Rightarrow> (Some e, log_error ''handle_twilio_to_openai'' e r')
      | (None, r') \<Rightarrow> (None, r'))"

subsection \<open>The model-to-telephony pump\<close>

text \<open>
  The pump is a generator: besides the exception and the session, processing a message gives
  the events it yields to its consumer.
\<close>

type_synonym response_callback = "json \<Rightarrow> relay \<Rightarrow> error option \<times> relay"

record callbacks =
  on_audio_response :: "response_callback option"
  on_text_response :: "response_callback option"
  on_speech_started :: "callback option"

definition no_callbacks :: callbacks where
  "no_callbacks = \<lparr>on_audio_response = None, on_text_response = None, on_speech_started = None\<rparr>"

definition run_response_callback ::
  "response_callback option \<Rightarrow> json \<Rightarrow> relay \<Rightarrow> error option \<times> relay" where
  "run_response_callback cb response r = (case cb of None \<Rightarrow> (None, r) | Some f \<Rightarrow> f response r)"

definition side_event :: "string \<Rightarrow> json \<Rightarrow> relay \<Rightarrow> json" where
  "side_event kind response r =
     JObj [(''type'', JStr kind), (''data'', response), (''session_id'', JStr (session_id r))]"

definition openai_message ::
  "callbacks \<Rightarrow> json option \<Rightarrow> relay \<Rightarrow> error option \<times> relay \<times> json list" where
  "openai_message cbs message r =
     (case message of
        None \<Rightarrow> (Some JSONDecodeError, r, [])
      | Some response \<Rightarrow>
          (case py_getitem response ''type'' of
             Inl e \<Rightarrow> (Some e, r, [])
           | Inr ty \<Rightarrow>
               if ty = JStr ''response.audio.delta'' \<and> py_in ''delta'' response then
                 (case run_response_callback (on_audio_response cbs) response
                         (handle_audio_delta response r) of
                    (e, r') \<Rightarrow> (e, r', []))
               else if ty = JStr ''response.text.delta'' then
                 (case run_response_callback (on_text_response cbs) response r of
                    (e, r') \<Rightarrow> (e, r', []))
               else if ty = JStr ''input_audio_buffer.speech_started'' then
                 (case run_callback (on_speech_started cbs) (handle_speech_interruption r) of
                    (e, r') \<Rightarrow> (e, r', []))
               else if ty = JStr ''conversation.item.created'' then
                 (None, r, [side_event ''conversation_item'' response r])
               else if ty = JStr ''response.function_call_arguments.delta'' then
                 (None, r, [side_event ''rag_query'' response r])
               else if ty = JStr ''response.done'' then
                 (None, r, [side_event ''response_complete'' response r])
               else (None, r, [])))"

fun openai_loop ::
  "callbacks \<Rightarrow> json option list \<Rightarrow> relay \<Rightarrow> error option \<times> relay \<times> json list" where
  "openai_loop cbs [] r = (None, r, [])"
| "openai_loop cbs (message # rest) r =
     (case openai_message cbs message r of
        (Some e, r', evs) \<Rightarrow> (Some e, r', evs)
      | (None, r', evs) \<Rightarrow>
          (case openai_loop cbs rest r' of (e, r'', evs') \<Rightarrow> (e, r'', evs @ evs')))"

definition handle_openai_to_twilio ::
  "callbacks \<Rightarrow> json option list \<Rightarrow> relay \<Rightarrow> error option \<times> relay \<times> json list" where
  "handle_openai_to_twilio cbs messages r =
     (case openai_loop cbs messages r of
        (Some e, r', evs) \<Rightarrow> (Some e, log_error ''handle_openai_to_twilio'' e r', evs)
      | (None, r', evs) \<Rightarrow> (None, r', evs))"

subsection \<open>Both pumps on one session\<close>

text \<open>
  The two pumps run as tasks of one event loop on the same session. An arrival is a message
  of either stream; the relay takes the arrivals in some order. The mark queue is touched by
  single statements only (an append, a test with its pop, a clear), so taking each
  arrival's handling as one step loses no interleaving of the queue.
\<close>

datatype arrival = FromTwilio "json option" | FromOpenAI "json option"

fun arrive :: "arrival \<Rightarrow> relay \<Rightarrow> error option \<times> relay" where
  "arrive (FromTwilio m) r = twilio_message None m r"
| "arrive (FromOpenAI m) r = (case openai_message no_callbacks m r of (e, r', evs) \<Rightarrow> (e, r'))"

fun arrivals :: "arrival list \<Rightarrow> relay \<Rightarrow> error option \<times> relay" where
  "arrivals [] r = (None, r)"
| "arrivals (a # rest) r =
     (case arrive a r of (Some e, r') \<Rightarrow> (Some e, r') | (None, r') \<Rightarrow> arrivals rest r')"

section \<open>Session teardown\<close>

text \<open>
  The server keeps the call sessions in \<^verbatim>\<open>active_sessions\<close> and the websocket manager its
  \<^verbatim>\<open>connections\<close>. Calls to the collaborators are recorded in \<open>effects\<close>; each of them
  catches its own exceptions, so none reaches \<^verbatim>\<open>cleanup_call_session\<close>. Times are
  microseconds. What \<^verbatim>\<open>datetime.now\<close> and the summary service return is given by \<open>env\<close>.
\<close>

datatype session_handle = OpenAISession relay | AzureSession string

record call_session =
  call_sid :: string
  user_id :: "string option"
  vendor_details :: "json option"
  start_time :: int
  end_time :: "int option"
  status :: string
  azure_session :: "session_handle option"
  conversation_log :: "json list"

record call_metrics =
  m_user_id :: "string option"
  m_call_id :: string
  m_call_duration :: int
  m_transcript :: "json list"
  m_summary :: string
  m_start_time :: int
  m_end_time :: int
  m_vendor_details :: "json option"

datatype effect =
    SaveCallMetrics call_metrics
  | CloseSession relay
  | AzureCleanupSession string

record server =
  active_sessions :: "string \<rightharpoonup> call_session"
  connections :: "string \<rightharpoonup> bool"
  effects :: "effect list"

record env =
  now :: int
  generate_conversation_summary :: "json list \<Rightarrow> string"

definition close_session :: "relay \<Rightarrow> relay" where
  "close_session r = r\<lparr>is_active := False\<rparr>"

text \<open>\<^verbatim>\<open>int(delta.total_seconds())\<close>: whole seconds, rounded towards zero.\<close>

definition total_seconds :: "int \<Rightarrow> int" where
  "total_seconds us = (if us \<ge> 0 then us div 1000000 else - ((- us) div 1000000))"

definition disconnect :: "string \<Rightarrow> server \<Rightarrow> server" where
  "disconnect sid s =
     (case connections s sid of
        None \<Rightarrow> s
      | Some c \<Rightarrow> s\<lparr>connections := (connections s)(sid := None)\<rparr>)"

definition cleanup_call_session :: "env \<Rightarrow> string \<Rightarrow> server \<Rightarrow> server" where
  "cleanup_call_session env call_session_id s =
     (case active_sessions s call_session_id of
        None \<Rightarrow> s
      | Some cs \<Rightarrow>
          (let cs1 = cs\<lparr>end_time := Some (now env), status := ''completed''\<rparr>;
               duration = total_seconds (now env - start_time cs1);
               summary = (if conversation_log cs1 \<noteq> []
                          then generate_conversation_summary env (conversation_log cs1)
                          else ''No conversation recorded'');
               s1 = s\<lparr>effects := effects s @
                      [SaveCallMetrics
                         \<lparr>m_user_id = user_id cs1, m_call_id = call_sid cs1,
                          m_call_duration = duration, m_transcript = conversation_log cs1,
                          m_summary = summary, m_start_time = start_time cs1,
                          m_end_time = now env, m_vendor_details = vendor_details cs1\<rparr>]\<rparr>;
               s2 = (case azure_session cs1 of
                       None \<Rightarrow> s1
                     | Some (OpenAISession r) \<Rightarrow>
                         s1\<lparr>effects := effects s1 @ [CloseSession (close_session r)]\<rparr>
                     | Some (AzureSession a) \<Rightarrow>
                         s1\<lparr>effects := effects s1 @ [AzureCleanupSession a]\<rparr>);
               s3 = s2\<lparr>active_sessions := (active_sessions s2)(call_session_id := None)\<rparr>
           in disconnect call_session_id s3))"

section \<open>Notions of the specification\<close>

subsection \<open>Canonical base64\<close>

text \<open>
  A string is canonical base64 when it is made of groups of four alphabet characters, the
  last of which may end in one or two padding characters whose unused bits are zero.
\<close>

definition data_char :: "char \<Rightarrow> bool" where
  "data_char c = (table_a2b_base64 c \<noteq> None)"

definition last_quad :: "char \<Rightarrow> char \<Rightarrow> char \<Rightarrow> char \<Rightarrow> bool" where
  "last_quad a b c d =
     (case (table_a2b_base64 a, table_a2b_base64 b) of
        (Some va, Some vb) \<Rightarrow>
          if c = CHR ''='' then d = CHR ''='' \<and> vb mod 16 = 0
          else (case table_a2b_base64 c of
                  None \<Rightarrow> False
                | Some vc \<Rightarrow> if d = CHR ''='' then vc mod 4 = 0 else data_char d)
      | _ \<Rightarrow> False)"

fun canonical_b64 :: "string \<Rightarrow> bool" where
  "canonical_b64 [] = True"
| "canonical_b64 (a # b # c # d # rest) =
     (if rest = [] then last_quad a b c d
      else data_char a \<and> data_char b \<and> data_char c \<and> data_char d \<and> canonical_b64 rest)"
| "canonical_b64 _ = False"

subsection \<open>Typed events\<close>

text \<open>
  A telephony message is a \<open>Media\<close> frame when it decodes, its event is \<^verbatim>\<open>media\<close>, its
  timestamp converts to an integer and it carries a payload; \<open>media_frame\<close> gives the
  timestamp and the payload of such a message.
\<close>

definition media_frame :: "json option \<Rightarrow> (int \<times> json) option" where
  "media_frame message =
     (case message of
        None \<Rightarrow> None
      | Some data \<Rightarrow>
          if py_getitem data ''event'' = Inr (JStr ''media'') then
            (case py_getitem data ''media'' of
               Inl e \<Rightarrow> None
             | Inr media \<Rightarrow>
                 (case (py_getitem media ''timestamp'', py_getitem media ''payload'') of
                    (Inr ts, Inr payload) \<Rightarrow>
                      (case py_int ts of Inl e \<Rightarrow> None | Inr t \<Rightarrow> Some (t, payload))
                  | _ \<Rightarrow> None))
          else None)"

text \<open>
  The arrivals of a window between two interruptions, by what the specification says of
  them. \<open>AudioDelta\<close> is an audio delta of the model whose payload decodes. \<open>Mark\<close> is a mark
  acknowledgment of the telephony side. \<open>Other\<close> is any other arrival that the relay
  processes without raising and that is neither an interruption nor the start of a
  stream: a \<open>Media\<close> frame, a telephony event the pump has no branch for, an audio delta
  whose payload does not decode (it is logged and dropped), and every other event of the
  model. An arrival that is none of these has no kind: an undecodable message, a message
  that raises, a \<^verbatim>\<open>speech_started\<close> event, a \<^verbatim>\<open>start\<close> event.
\<close>

datatype event_kind = AudioDelta | Mark | Other

definition decodable :: "json \<Rightarrow> bool" where
  "decodable response =
     (case py_getitem response ''delta'' of
        Inl e \<Rightarrow> False
      | Inr delta \<Rightarrow> (case b64decode delta of Inl e \<Rightarrow> False | Inr raw \<Rightarrow> True))"

fun classify :: "arrival \<Rightarrow> event_kind option" where
  "classify (FromOpenAI (Some response)) =
     (case py_getitem response ''type'' of
        Inl e \<Rightarrow> None
      | Inr ty \<Rightarrow>
          if ty = JStr ''response.audio.delta'' \<and> py_in ''delta'' response
          then (if decodable response then Some AudioDelta else Some Other)
          else if ty = JStr ''input_audio_buffer.speech_started'' then None
          else Some Other)"
| "classify (FromTwilio (Some data)) =
     (case py_getitem data ''event'' of
        Inl e \<Rightarrow> None
      | Inr event \<Rightarrow>
          if event = JStr ''mark'' then Some Mark
          else if event = JStr ''media''
          then (if media_frame (Some data) = None then None else Some Other)
          else if event = JStr ''start'' then None
          else Some Other)"
| "classify _ = None"

text \<open>
  The queue the specification describes: an audio delta appends a token, a mark removes the
  first token of a queue that has one, nothing else touches the queue. \<open>ignored_marks\<close>
  counts the marks that arrive at an empty queue, for a queue that starts with \<open>n\<close> tokens.
\<close>

fun queue_after :: "event_kind list \<Rightarrow> string list \<Rightarrow> string list" where
  "queue_after [] q = q"
| "queue_after (AudioDelta # ks) q = queue_after ks (q @ [''responsePart''])"
| "queue_after (Mark # ks) q = queue_after ks (if q = [] then [] else tl q)"
| "queue_after (Other # ks) q = queue_after ks q"

fun ignored_marks :: "event_kind list \<Rightarrow> nat \<Rightarrow> nat" where
  "ignored_marks [] n = 0"
| "ignored_marks (AudioDelta # ks) n = ignored_marks ks (Suc n)"
| "ignored_marks (Mark # ks) n = (if n = 0 then Suc (ignored_marks ks 0) else ignored_marks ks (n - 1))"
| "ignored_marks (Other # ks) n = ignored_marks ks n"

subsection \<open>Example sessions and messages\<close>

definition started_session :: relay where
  "started_session = (create_session ''CA1'')\<lparr>stream_sid := JStr ''MZ1''\<rparr>"

definition playing_session :: relay where
  "playing_session =
     started_session\<lparr>latest_media_timestamp := 1450, last_assistant_item := JStr ''item_7'',
       mark_queue := [''responsePart''], response_start_timestamp := Some 1000\<rparr>"

definition skewed_session :: relay where
  "skewed_session =
     started_session\<lparr>latest_media_timestamp := 1800, last_assistant_item := JStr ''item_7'',
       mark_queue := [''responsePart''], response_start_timestamp := Some 2000\<rparr>"

definition media_message :: "string \<Rightarrow> string \<Rightarrow> json option" where
  "media_message ts payload =
     Some (JObj [(''event'', JStr ''media''),
                 (''media'', JObj [(''timestamp'', JStr ts), (''payload'', JStr payload)])])"

definition mark_message :: "json option" where
  "mark_message =
     Some (JObj [(''event'', JStr ''mark''), (''mark'', JObj [(''name'', JStr ''responsePart'')])])"

definition audio_delta_message :: "string \<Rightarrow> string \<Rightarrow> json" where
  "audio_delta_message item delta =
     JObj [(''type'', JStr ''response.audio.delta''), (''item_id'', JStr item),
           (''delta'', JStr delta)]"

definition item_created_message :: json where
  "item_created_message =
     JObj [(''type'', JStr ''conversation.item.created''),
           (''item'', JObj [(''role'', JStr ''assistant'')])]"

definition response_done_message :: json where
  "response_done_message =
     JObj [(''type'', JStr ''response.done''), (''response'', JObj [(''status'', JStr ''completed'')])]"

definition example_env :: env where
  "example_env = \<lparr>now = 61500000, generate_conversation_summary = (\<lambda>log. ''Summary generation failed'')\<rparr>"

definition example_call :: call_session where
  "example_call =
     \<lparr>call_sid = ''CA1'', user_id = Some ''u1'', vendor_details = None, start_time = 0,
      end_time = None, status = ''connected'', azure_session = Some (OpenAISession started_session),
      conversation_log = []\<rparr>"

definition example_server :: server where
  "example_server =
     \<lparr>active_sessions = [''s1'' \<mapsto> example_call], connections = Map.empty, effects = []\<rparr>"

section \<open>The interruption handler\<close>

text \<open>
  Claim C1. In a session with \<open>response_start_timestamp = 1000\<close>,
  \<open>latest_media_timestamp = 1450\<close>, \<open>last_assistant_item = item_7\<close> and a mark queue that is
  not empty, the interruption handler sends exactly one frame to the model, the truncate
  instruction for \<open>item_7\<close> with content index 0 and \<open>audio_end_ms = 450\<close>, exactly one frame
  to the telephony side, the clear instruction with the stream id, and leaves the mark queue
  empty and both \<open>last_assistant_item\<close> and \<open>response_start_timestamp\<close> unset. Nothing else
  of the session changes.
\<close>

theorem interruption_correctness:
  assumes "response_start_timestamp r = Some 1000"
    and "latest_media_timestamp r = 1450"
    and "last_assistant_item r = JStr ''item_7''"
    and "mark_queue r \<noteq> []"
  shows "handle_speech_interruption r =
           r\<lparr>websocket := websocket r @
                 [JObj [(''type'', JStr ''conversation.item.truncate''),
                        (''item_id'', JStr ''item_7''), (''content_index'', JInt 0),
                        (''audio_end_ms'', JInt 450)]],
             twilio_ws := twilio_ws r @
                 [JObj [(''event'', JStr ''clear''), (''streamSid'', stream_sid r)]],
             mark_queue := [], last_assistant_item := JNull,
             response_start_timestamp := None\<rparr>"
  using assms
  by (simp add: handle_speech_interruption_def ws_send_def send_json_def truncate_event_def
      clear_event_def)

theorem interruption_correctness_witness:
  "handle_speech_interruption playing_session =
     playing_session\<lparr>websocket :=
         [JObj [(''type'', JStr ''conversation.item.truncate''), (''item_id'', JStr ''item_7''),
                (''content_index'', JInt 0), (''audio_end_ms'', JInt 450)]],
       twilio_ws := [JObj [(''event'', JStr ''clear''), (''streamSid'', JStr ''MZ1'')]],
       mark_queue := [], last_assistant_item := JNull, response_start_timestamp := None\<rparr>"
  using interruption_correctness [of playing_session]
  by (simp add: playing_session_def started_session_def create_session_def)

text \<open>
  Claim C5. When the mark queue is empty or \<open>response_start_timestamp\<close> is unset, the
  interruption handler does nothing: no frame is sent to either side and the session is
  the same afterwards.
\<close>

theorem interruption_noop:
  assumes "mark_queue r = [] \<or> response_start_timestamp r = None"
  shows "handle_speech_interruption r = r"
  using assms by (auto simp add: handle_speech_interruption_def split: option.splits)

theorem interruption_noop_witness:
  "handle_speech_interruption started_session = started_session"
  using interruption_noop [of started_session]
  by (simp add: started_session_def create_session_def)

text \<open>
  Claim C3 as stated asks for \<open>audio_end_ms = 0\<close> when the media clock is behind the start of
  the response. With \<open>response_start_timestamp = 2000\<close> and \<open>latest_media_timestamp = 1800\<close>
  the handler sends \<open>-200\<close>.
\<close>

theorem truncate_offset_counterexample:
  "websocket (handle_speech_interruption skewed_session) =
     [JObj [(''type'', JStr ''conversation.item.truncate''), (''item_id'', JStr ''item_7''),
            (''content_index'', JInt 0), (''audio_end_ms'', JInt (- 200))]]
   \<and> JInt (- 200) \<noteq> JInt 0"
  by (simp add: handle_speech_interruption_def ws_send_def send_json_def truncate_event_def
      clear_event_def skewed_session_def started_session_def create_session_def)

text \<open>
  Claim C3, as the code has it. With a mark queue that is not empty,
  \<open>response_start_timestamp\<close> set and \<open>last_assistant_item\<close> set, the truncate instruction
  carries \<open>audio_end_ms = latest_media_timestamp - response_start_timestamp\<close>. The
  difference is not clamped: it is negative when the media clock is behind the start of the
  response, and with 2000 and 1800 it is \<open>-200\<close>.
\<close>

theorem truncate_offset:
  assumes "mark_queue r \<noteq> []"
    and "response_start_timestamp r = Some start"
    and "truthy (last_assistant_item r)"
  shows "websocket (handle_speech_interruption r) =
           websocket r @
             [JObj [(''type'', JStr ''conversation.item.truncate''),
                    (''item_id'', last_assistant_item r), (''content_index'', JInt 0),
                    (''audio_end_ms'', JInt (latest_media_timestamp r - start))]]"
  using assms
  by (simp add: handle_speech_interruption_def ws_send_def send_json_def truncate_event_def
      clear_event_def)

theorem truncate_offset_witness:
  "websocket (handle_speech_interruption skewed_session) =
     websocket skewed_session @
       [JObj [(''type'', JStr ''conversation.item.truncate''), (''item_id'', JStr ''item_7''),
              (''content_index'', JInt 0), (''audio_end_ms'', JInt (1800 - 2000))]]"
  using truncate_offset [of skewed_session 2000]
  by (simp add: skewed_session_def started_session_def create_session_def)

section \<open>The telephony-to-model pump\<close>

lemma media_frame_step:
  assumes "media_frame m = Some (t, p)"
  shows "twilio_message cb m r = (None, ws_send (audio_append p) (r\<lparr>latest_media_timestamp := t\<rparr>))"
proof -
  from assms obtain data where m: "m = Some data"
    by (cases m) (simp_all add: media_frame_def)
  from assms m have ev: "py_getitem data ''event'' = Inr (JStr ''media'')"
    by (cases "py_getitem data ''event'' = Inr (JStr ''media'')") (simp_all add: media_frame_def)
  from assms m ev obtain media where md: "py_getitem data ''media'' = Inr media"
    by (cases "py_getitem data ''media''") (simp_all add: media_frame_def)
  from assms m ev md obtain ts where ts: "py_getitem media ''timestamp'' = Inr ts"
    by (cases "py_getitem media ''timestamp''") (simp_all add: media_frame_def)
  from assms m ev md ts obtain pl where pl: "py_getitem media ''payload'' = Inr pl"
    by (cases "py_getitem media ''payload''") (simp_all add: media_frame_def)
  from assms m ev md ts pl have t: "py_int ts = Inr t" and p: "pl = p"
    by (cases "py_int ts"; simp add: media_frame_def)+
  show ?thesis
    by (simp add: twilio_message_def m ev md ts pl t p)
qed

lemma twilio_loop_media:
  "map media_frame ms = map Some fs \<Longrightarrow>
   twilio_loop cb ms r =
     (None, r\<lparr>latest_media_timestamp := (if fs = [] then latest_media_timestamp r else fst (last fs)),
              websocket := websocket r @ map (audio_append \<circ> snd) fs\<rparr>)"
proof (induction ms arbitrary: fs r)
  case Nil
  then show ?case by simp
next
  case (Cons m ms)
  then obtain f fs' where fs: "fs = f # fs'" and m: "media_frame m = Some f"
    and rest: "map media_frame ms = map Some fs'"
    by (cases fs) auto
  obtain t p where f: "f = (t, p)" by (cases f)
  show ?case
    using media_frame_step [of m t p cb r] m f Cons.IH [OF rest] fs
    by (simp add: ws_send_def)
qed

lemma sorted_last_Max:
  fixes xs :: "int list"
  shows "sorted xs \<Longrightarrow> xs \<noteq> [] \<Longrightarrow> last xs = Max (set xs)"
proof (induction xs)
  case Nil
  then show ?case by simp
next
  case (Cons x xs)
  show ?case
  proof (cases "xs = []")
    case True
    then show ?thesis by simp
  next
    case False
    with Cons have "last xs = Max (set xs)" by simp
    moreover from Cons.prems False have "x \<le> Max (set xs)"
      by (metis List.finite_set Max_ge_iff last_in_set calculation set_empty sorted_simps(2))
    ultimately show ?thesis using False by (simp add: max_def)
  qed
qed

lemma int_of_str_1450: "int_of_str ''1450'' = Inr 1450"
  by (simp add: int_of_str_def strip_def py_isspace_def parse_digits_def is_digit_def
      digits_value_def)

lemma int_of_str_1200: "int_of_str ''1200'' = Inr 1200"
  by (simp add: int_of_str_def strip_def py_isspace_def parse_digits_def is_digit_def
      digits_value_def)

lemma media_message_1450: "media_frame (media_message ''1450'' ''QUJD'') = Some (1450, JStr ''QUJD'')"
  by (simp add: media_frame_def media_message_def int_of_str_1450)

lemma media_message_1200: "media_frame (media_message ''1200'' ''QUJD'') = Some (1200, JStr ''QUJD'')"
  by (simp add: media_frame_def media_message_def int_of_str_1200)

lemma twilio_loop_append:
  "twilio_loop cb pre r = (None, r') \<Longrightarrow> twilio_loop cb (pre @ ms) r = twilio_loop cb ms r'"
proof (induction pre arbitrary: r)
  case Nil
  then show ?case by simp
next
  case (Cons m pre)
  then show ?case
    by (cases "twilio_message cb m r") (auto split: option.splits)
qed

text \<open>
  Claim C2 as stated asks for the maximum of the timestamps seen. After the frames with
  timestamps 1450 and 1200 the stored value is 1200: it went down from 1450, and it is not
  the maximum.
\<close>

theorem media_clock_counterexample:
  "latest_media_timestamp (snd (handle_twilio_to_openai None [media_message ''1450'' ''QUJD''] started_session)) = 1450
   \<and> latest_media_timestamp (snd (handle_twilio_to_openai None
        [media_message ''1450'' ''QUJD'', media_message ''1200'' ''QUJD''] started_session)) = 1200
   \<and> Max {1450, 1200 :: int} = 1450"
  by (simp add: handle_twilio_to_openai_def media_frame_step [OF media_message_1450]
      media_frame_step [OF media_message_1200] ws_send_def)

text \<open>
  Claim C2, as the code has it. After a sequence of \<open>Media\<close> frames that is not empty, no
  exception is raised, \<open>latest_media_timestamp\<close> is the timestamp of the last frame, and
  every payload has been forwarded to the model as an audio-buffer append, in order. The
  stored value is the maximum of the timestamps seen when they arrive in non-decreasing
  order; a later frame with a smaller timestamp lowers it.
\<close>

theorem media_clock:
  assumes "map media_frame ms = map Some fs" and "fs \<noteq> []"
  shows "handle_twilio_to_openai cb ms r =
           (None, r\<lparr>latest_media_timestamp := fst (last fs),
                    websocket := websocket r @ map (audio_append \<circ> snd) fs\<rparr>)
         \<and> (sorted (map fst fs) \<longrightarrow>
              latest_media_timestamp (snd (handle_twilio_to_openai cb ms r)) = Max (set (map fst fs)))"
proof -
  have run: "handle_twilio_to_openai cb ms r =
           (None, r\<lparr>latest_media_timestamp := fst (last fs),
                    websocket := websocket r @ map (audio_append \<circ> snd) fs\<rparr>)"
    using twilio_loop_media [OF assms(1), of cb r] assms(2)
    by (simp add: handle_twilio_to_openai_def)
  have "fst (last fs) = last (map fst fs)" using assms(2) by (simp add: last_map)
  then show ?thesis using run sorted_last_Max [of "map fst fs"] assms(2) by simp
qed

theorem media_clock_witness:
  "handle_twilio_to_openai None [media_message ''1450'' ''QUJD'', media_message ''1200'' ''QUJD'']
      started_session =
     (None, started_session\<lparr>latest_media_timestamp := 1200,
        websocket := [audio_append (JStr ''QUJD''), audio_append (JStr ''QUJD'')]\<rparr>)"
  using media_clock [of "[media_message ''1450'' ''QUJD'', media_message ''1200'' ''QUJD'']"
      "[(1450, JStr ''QUJD''), (1200, JStr ''QUJD'')]" None started_session]
  by (simp add: media_message_1450 media_message_1200 started_session_def create_session_def)

text \<open>
  Claim C4 as stated asks that an undecodable message is dropped and the pump goes on. With
  an undecodable message followed by a \<open>Media\<close> frame, the pump logs the decode error,
  raises it, and the frame after it is never processed: the clock stays at 0 and nothing is
  sent to the model.
\<close>

theorem malformed_message_counterexample:
  "handle_twilio_to_openai None [None, media_message ''1450'' ''QUJD''] started_session =
     (Some JSONDecodeError,
      started_session\<lparr>error_log := [(''handle_twilio_to_openai'', JSONDecodeError)]\<rparr>)"
  by (simp add: handle_twilio_to_openai_def twilio_message_def log_error_def
      started_session_def create_session_def)

text \<open>
  Claim C4, as the code has it. An undecodable message ends the telephony-to-model pump: the
  messages before it have been processed, the decode error is logged once and raised to the
  caller, and no message after it is processed.
\<close>

theorem malformed_message_ends_pump:
  assumes "handle_twilio_to_openai cb pre r = (None, r')"
  shows "handle_twilio_to_openai cb (pre @ None # post) r =
           (Some JSONDecodeError, log_error ''handle_twilio_to_openai'' JSONDecodeError r')"
proof -
  from assms have "twilio_loop cb pre r = (None, r')"
    by (auto simp add: handle_twilio_to_openai_def split: prod.splits option.splits)
  then have "twilio_loop cb (pre @ None # post) r = (Some JSONDecodeError, r')"
    by (simp add: twilio_loop_append twilio_message_def)
  then show ?thesis by (simp add: handle_twilio_to_openai_def)
qed

theorem malformed_message_ends_pump_witness:
  "handle_twilio_to_openai None
      ([media_message ''1450'' ''QUJD''] @ None # [media_message ''1200'' ''QUJD'']) started_session =
     (Some JSONDecodeError,
      started_session\<lparr>latest_media_timestamp := 1450, websocket := [audio_append (JStr ''QUJD'')],
        error_log := [(''handle_twilio_to_openai'', JSONDecodeError)]\<rparr>)"
proof -
  have pre: "handle_twilio_to_openai None [media_message ''1450'' ''QUJD''] started_session =
      (None, started_session\<lparr>latest_media_timestamp := 1450,
         websocket := [audio_append (JStr ''QUJD'')]\<rparr>)"
    by (simp add: handle_twilio_to_openai_def media_frame_step [OF media_message_1450] ws_send_def
        started_session_def create_session_def)
  show ?thesis
    using malformed_message_ends_pump [OF pre, of "[media_message ''1200'' ''QUJD'']"]
    by (simp add: log_error_def started_session_def create_session_def)
qed

section \<open>Audio deltas\<close>

subsection \<open>Decoding and encoding again\<close>

lemma index_of_Some: "index_of x xs = Some i \<Longrightarrow> i < length xs \<and> xs ! i = x"
proof (induction xs arbitrary: i)
  case Nil
  then show ?case by simp
next
  case (Cons y ys)
  then show ?case by (auto split: if_splits)
qed

lemma length_b64_alphabet: "length b64_alphabet = 64"
  by (simp add: b64_alphabet_def)

lemma alphabet_ascii_all:
  "list_all (\<lambda>c. (of_char c :: nat) < 128 \<and> c \<noteq> CHR ''='') b64_alphabet"
  by code_simp

lemma alphabet_ascii: "c \<in> set b64_alphabet \<Longrightarrow> (of_char c :: nat) < 128 \<and> c \<noteq> CHR ''=''"
  using alphabet_ascii_all unfolding list_all_iff by blast

lemma table_a2b_Some:
  assumes "table_a2b_base64 c = Some v"
  shows "v < 64" and "table_b2a_base64 v = c" and "c \<noteq> CHR ''=''" and "(of_char c :: nat) < 128"
proof -
  from assms have iv: "v < length b64_alphabet \<and> b64_alphabet ! v = c"
    unfolding table_a2b_base64_def by (rule index_of_Some)
  then show "v < 64" by (simp add: length_b64_alphabet)
  from iv show "table_b2a_base64 v = c" by (simp add: table_b2a_base64_def)
  from iv have "c \<in> set b64_alphabet" by (metis nth_mem)
  then show "c \<noteq> CHR ''=''" and "(of_char c :: nat) < 128" using alphabet_ascii by blast+
qed

lemma a2b_quad:
  assumes "table_a2b_base64 a = Some va" "table_a2b_base64 b = Some vb"
    "table_a2b_base64 c = Some vc" "table_a2b_base64 d = Some vd"
  shows "a2b_loop (a # b # c # d # rest) 0 l p out =
           a2b_loop rest 0 0 0 (out @ [va * 4 + vb div 16, (vb mod 16) * 16 + vc div 4, (vc mod 4) * 64 + vd])"
  using assms table_a2b_Some(3) [OF assms(1)] table_a2b_Some(3) [OF assms(2)]
    table_a2b_Some(3) [OF assms(3)] table_a2b_Some(3) [OF assms(4)]
  by simp

lemma a2b_pad1:
  assumes "table_a2b_base64 a = Some va" "table_a2b_base64 b = Some vb"
    "table_a2b_base64 c = Some vc"
  shows "a2b_loop (a # b # c # CHR ''='' # rest) 0 l p out =
           Inr (out @ [va * 4 + vb div 16, (vb mod 16) * 16 + vc div 4])"
  using assms table_a2b_Some(3) [OF assms(1)] table_a2b_Some(3) [OF assms(2)]
    table_a2b_Some(3) [OF assms(3)]
  by simp

lemma a2b_pad2:
  assumes "table_a2b_base64 a = Some va" "table_a2b_base64 b = Some vb"
  shows "a2b_loop (a # b # CHR ''='' # CHR ''='' # rest) 0 l p out =
           Inr (out @ [va * 4 + vb div 16])"
  using assms table_a2b_Some(3) [OF assms(1)] table_a2b_Some(3) [OF assms(2)]
  by simp

lemma sx1: "vb < 64 \<Longrightarrow> (va * 4 + vb div 16) div 4 = (va::nat)"
  by simp

lemma sx2: "vb < 64 \<Longrightarrow> vc < 64 \<Longrightarrow>
   ((va * 4 + vb div 16) mod 4) * 16 + ((vb mod 16) * 16 + vc div 4) div 16 = (vb::nat)"
proof -
  assume b: "vb < 64" and c: "vc < 64"
  have 1: "(va * 4 + vb div 16) mod 4 = vb div 16" using b by simp
  have 2: "((vb mod 16) * 16 + vc div 4) div 16 = vb mod 16" using c by simp
  show ?thesis unfolding 1 2 by simp
qed

lemma sx3: "vc < 64 \<Longrightarrow> vd < 64 \<Longrightarrow>
   (((vb mod 16) * 16 + vc div 4) mod 16) * 4 + ((vc mod 4) * 64 + vd) div 64 = (vc::nat)"
proof -
  assume c: "vc < 64" and d: "vd < 64"
  have 1: "((vb mod 16) * 16 + vc div 4) mod 16 = vc div 4" using c by simp
  have 2: "((vc mod 4) * 64 + vd) div 64 = vc mod 4" using d by simp
  show ?thesis unfolding 1 2 by simp
qed

lemma sx4: "vd < 64 \<Longrightarrow> ((vc mod 4) * 64 + vd) mod 64 = (vd::nat)"
  by simp

lemma sp1: "vc < 64 \<Longrightarrow> vc mod 4 = 0 \<Longrightarrow>
   (((vb mod 16) * 16 + vc div 4) mod 16) * 4 = (vc::nat)"
proof -
  assume c: "vc < 64" and z: "vc mod 4 = 0"
  have 1: "((vb mod 16) * 16 + vc div 4) mod 16 = vc div 4" using c by simp
  show ?thesis unfolding 1 using z by auto
qed

lemma sp2: "vb < 64 \<Longrightarrow> vb mod 16 = 0 \<Longrightarrow> ((va * 4 + vb div 16) mod 4) * 16 = (vb::nat)"
proof -
  assume b: "vb < 64" and z: "vb mod 16 = 0"
  have 1: "(va * 4 + vb div 16) mod 4 = vb div 16" using b by simp
  show ?thesis unfolding 1 using z by auto
qed

lemma sextets:
  fixes va vb vc vd x y z :: nat
  assumes "va < 64" "vb < 64" "vc < 64" "vd < 64"
    and "x = va * 4 + vb div 16" and "y = (vb mod 16) * 16 + vc div 4"
    and "z = (vc mod 4) * 64 + vd"
  shows "x div 4 = va"
    and "(x mod 4) * 16 + y div 16 = vb"
    and "(y mod 16) * 4 + z div 64 = vc"
    and "z mod 64 = vd"
proof -
  show "x div 4 = va" unfolding assms(5) by (rule sx1 [OF assms(2)])
  show "(x mod 4) * 16 + y div 16 = vb" unfolding assms(5,6) by (rule sx2 [OF assms(2,3)])
  show "(y mod 16) * 4 + z div 64 = vc" unfolding assms(6,7) by (rule sx3 [OF assms(3,4)])
  show "z mod 64 = vd" unfolding assms(7) by (rule sx4 [OF assms(4)])
qed

lemma sextets_pad1:
  fixes va vb vc x y :: nat
  assumes "va < 64" "vb < 64" "vc < 64" "vc mod 4 = 0"
    and "x = va * 4 + vb div 16" and "y = (vb mod 16) * 16 + vc div 4"
  shows "x div 4 = va" and "(x mod 4) * 16 + y div 16 = vb" and "(y mod 16) * 4 = vc"
proof -
  show "x div 4 = va" unfolding assms(5) by (rule sx1 [OF assms(2)])
  show "(x mod 4) * 16 + y div 16 = vb" unfolding assms(5,6) by (rule sx2 [OF assms(2,3)])
  show "(y mod 16) * 4 = vc" unfolding assms(6) by (rule sp1 [OF assms(3,4)])
qed

lemma sextets_pad2:
  fixes va vb x :: nat
  assumes "va < 64" "vb < 64" "vb mod 16 = 0" and "x = va * 4 + vb div 16"
  shows "x div 4 = va" and "(x mod 4) * 16 = vb"
proof -
  show "x div 4 = va" unfolding assms(4) by (rule sx1 [OF assms(2)])
  show "(x mod 4) * 16 = vb" unfolding assms(4) by (rule sp2 [OF assms(2,3)])
qed

lemma canonical_roundtrip_loop:
  "canonical_b64 s \<Longrightarrow> \<exists>raw. (\<forall>out. a2b_loop s 0 0 0 out = Inr (out @ raw)) \<and> b64encode raw = s"
proof (induction s rule: canonical_b64.induct)
  case 1
  then show ?case by simp
next
  case (2 a b c d rest)
  show ?case
  proof (cases "rest = []")
    case True
    with 2(2) have lq: "last_quad a b c d" by simp
    then obtain va vb where va: "table_a2b_base64 a = Some va" and vb: "table_a2b_base64 b = Some vb"
      by (auto simp add: last_quad_def split: option.splits)
    note A = table_a2b_Some [OF va] and B = table_a2b_Some [OF vb]
    define x where "x = va * 4 + vb div 16"
    show ?thesis
    proof (cases "c = CHR ''=''")
      case c: True
      with lq va vb have d: "d = CHR ''=''" and z: "vb mod 16 = 0"
        by (auto simp add: last_quad_def)
      have "\<forall>out. a2b_loop (a # b # c # d # rest) 0 0 0 out = Inr (out @ [x])"
        using a2b_pad2 [OF va vb] c d x_def by simp
      moreover have "b64encode [x] = a # b # c # d # rest"
        using sextets_pad2 [OF A(1) B(1) z x_def] A(2) B(2) c d True by simp
      ultimately show ?thesis by blast
    next
      case cn: False
      with lq va vb obtain vc where vc: "table_a2b_base64 c = Some vc"
        by (auto simp add: last_quad_def split: option.splits)
      note C = table_a2b_Some [OF vc]
      define y where "y = (vb mod 16) * 16 + vc div 4"
      show ?thesis
      proof (cases "d = CHR ''=''")
        case d: True
        with lq va vb vc cn have z: "vc mod 4 = 0"
          by (auto simp add: last_quad_def)
        have "\<forall>out. a2b_loop (a # b # c # d # rest) 0 0 0 out = Inr (out @ [x, y])"
          using a2b_pad1 [OF va vb vc] d x_def y_def by simp
        moreover have "b64encode [x, y] = a # b # c # d # rest"
          using sextets_pad1 [OF A(1) B(1) C(1) z x_def y_def] A(2) B(2) C(2) d True by simp
        ultimately show ?thesis by blast
      next
        case dn: False
        with lq va vb vc cn obtain vd where vd: "table_a2b_base64 d = Some vd"
          by (auto simp add: last_quad_def data_char_def split: option.splits)
        note D = table_a2b_Some [OF vd]
        define z where "z = (vc mod 4) * 64 + vd"
        have "\<forall>out. a2b_loop (a # b # c # d # rest) 0 0 0 out = Inr (out @ [x, y, z])"
          using a2b_quad [OF va vb vc vd] True x_def y_def z_def by simp
        moreover have "b64encode [x, y, z] = a # b # c # d # rest"
          using sextets [OF A(1) B(1) C(1) D(1) x_def y_def z_def] A(2) B(2) C(2) D(2) True
          by simp
        ultimately show ?thesis by blast
      qed
    qed
  next
    case False
    with 2(2) obtain va vb vc vd where va: "table_a2b_base64 a = Some va"
      and vb: "table_a2b_base64 b = Some vb" and vc: "table_a2b_base64 c = Some vc"
      and vd: "table_a2b_base64 d = Some vd" and cr: "canonical_b64 rest"
      by (auto simp add: data_char_def)
    note A = table_a2b_Some [OF va] and B = table_a2b_Some [OF vb]
      and C = table_a2b_Some [OF vc] and D = table_a2b_Some [OF vd]
    from 2(1) [OF False cr] obtain raw where
      raw: "\<forall>out. a2b_loop rest 0 0 0 out = Inr (out @ raw)" and enc: "b64encode raw = rest"
      by blast
    define x where "x = va * 4 + vb div 16"
    define y where "y = (vb mod 16) * 16 + vc div 4"
    define z where "z = (vc mod 4) * 64 + vd"
    have "\<forall>out. a2b_loop (a # b # c # d # rest) 0 0 0 out = Inr (out @ (x # y # z # raw))"
      using a2b_quad [OF va vb vc vd] raw x_def y_def z_def by simp
    moreover have "b64encode (x # y # z # raw) = a # b # c # d # rest"
      using sextets [OF A(1) B(1) C(1) D(1) x_def y_def z_def] A(2) B(2) C(2) D(2) enc
      by simp
    ultimately show ?thesis by blast
  qed
qed simp_all

lemma canonical_ascii: "canonical_b64 s \<Longrightarrow> \<forall>c \<in> set s. (of_char c :: nat) < 128"
proof (induction s rule: canonical_b64.induct)
  case (2 a b c d rest)
  show ?case
  proof (cases "rest = []")
    case True
    with 2(2) have "last_quad a b c d" by simp
    then show ?thesis using True table_a2b_Some(4)
      by (auto simp add: last_quad_def data_char_def split: option.splits if_splits)
  next
    case False
    with 2 show ?thesis using table_a2b_Some(4)
      by (auto simp add: data_char_def)
  qed
qed simp_all

lemma canonical_b64decode:
  assumes "canonical_b64 s"
  shows "\<exists>raw. b64decode (JStr s) = Inr raw \<and> b64encode raw = s"
proof -
  from canonical_roundtrip_loop [OF assms] obtain raw where
    "\<forall>out. a2b_loop s 0 0 0 out = Inr (out @ raw)" and "b64encode raw = s" by blast
  then have "a2b_base64 s = Inr raw" by (simp add: a2b_base64_def)
  with canonical_ascii [OF assms] \<open>b64encode raw = s\<close> show ?thesis by simp
qed

lemma b64decode_QUJD: "b64decode (JStr ''QUJD'') = Inr [65, 66, 67]"
  by (simp add: a2b_base64_def table_a2b_base64_def b64_alphabet_def)

lemma b64encode_ABC: "b64encode [65, 66, 67] = ''QUJD''"
  by (simp add: table_b2a_base64_def b64_alphabet_def)

subsection \<open>The audio delta handler\<close>

lemma handle_audio_delta_decoded:
  assumes "map_of kvs ''delta'' = Some delta" and "b64decode delta = Inr raw"
  shows "handle_audio_delta (JObj kvs) r =
           r\<lparr>twilio_ws := twilio_ws r @
                 JObj [(''event'', JStr ''media''), (''streamSid'', stream_sid r),
                       (''media'', JObj [(''payload'', JStr (b64encode raw))])]
                 # (if truthy (stream_sid r) then [mark_event (stream_sid r)] else []),
             response_start_timestamp :=
               Some (case response_start_timestamp r of
                       None \<Rightarrow> latest_media_timestamp r | Some t \<Rightarrow> t),
             last_assistant_item :=
               (case map_of kvs ''item_id'' of
                  None \<Rightarrow> last_assistant_item r
                | Some item \<Rightarrow> if truthy item then item else last_assistant_item r),
             mark_queue := mark_queue r @ (if truthy (stream_sid r) then [''responsePart''] else [])\<rparr>"
  using assms
  by (cases "response_start_timestamp r"; cases "map_of kvs ''item_id''")
    (simp_all add: handle_audio_delta_def send_mark_def send_json_def media_event_def Let_def
      del: b64encode.simps)

lemma canonical_QUJD: "canonical_b64 ''QUJD''"
  by (simp add: last_quad_def data_char_def table_a2b_base64_def b64_alphabet_def)

text \<open>
  Claim C7 as stated asks for one new token in the mark queue for every audio delta. In a
  session whose telephony stream has not started, so that \<open>stream_sid\<close> is unset, the media
  frame is sent and the mark queue stays empty.
\<close>

theorem audio_delta_counterexample:
  "mark_queue (handle_audio_delta (audio_delta_message ''item_1'' ''QUJD'') (create_session ''CA1'')) = []
   \<and> twilio_ws (handle_audio_delta (audio_delta_message ''item_1'' ''QUJD'') (create_session ''CA1'')) =
       [JObj [(''event'', JStr ''media''), (''streamSid'', JNull),
              (''media'', JObj [(''payload'', JStr ''QUJD'')])]]"
  by (simp add: handle_audio_delta_def audio_delta_message_def b64decode_QUJD b64encode_ABC
      send_mark_def send_json_def media_event_def create_session_def Let_def
      del: b64encode.simps b64decode.simps)

text \<open>
  Claim C7, as the code has it. For every audio delta whose \<open>delta\<close> decodes as base64: the
  audio is forwarded as the telephony media frame with the stream id and the payload encoded
  again; \<open>response_start_timestamp\<close>, if unset, becomes the current
  \<open>latest_media_timestamp\<close> and otherwise stays; the \<open>item_id\<close> of the event, when it is
  present and not empty, becomes \<open>last_assistant_item\<close>; and when \<open>stream_sid\<close> is set, a
  mark frame is sent after the media frame and one token is appended to the mark queue,
  while with \<open>stream_sid\<close> unset neither happens.
\<close>

theorem audio_delta_effect:
  assumes "map_of kvs ''delta'' = Some delta" and "b64decode delta = Inr raw"
  shows "handle_audio_delta (JObj kvs) r =
           r\<lparr>twilio_ws := twilio_ws r @
                 JObj [(''event'', JStr ''media''), (''streamSid'', stream_sid r),
                       (''media'', JObj [(''payload'', JStr (b64encode raw))])]
                 # (if truthy (stream_sid r) then [mark_event (stream_sid r)] else []),
             response_start_timestamp :=
               Some (case response_start_timestamp r of
                       None \<Rightarrow> latest_media_timestamp r | Some t \<Rightarrow> t),
             last_assistant_item :=
               (case map_of kvs ''item_id'' of
                  None \<Rightarrow> last_assistant_item r
                | Some item \<Rightarrow> if truthy item then item else last_assistant_item r),
             mark_queue := mark_queue r @ (if truthy (stream_sid r) then [''responsePart''] else [])\<rparr>"
  using assms by (rule handle_audio_delta_decoded)

theorem audio_delta_effect_witness:
  "handle_audio_delta (audio_delta_message ''item_1'' ''QUJD'') started_session =
     started_session\<lparr>twilio_ws :=
         [JObj [(''event'', JStr ''media''), (''streamSid'', JStr ''MZ1''),
                (''media'', JObj [(''payload'', JStr ''QUJD'')])],
          mark_event (JStr ''MZ1'')],
       response_start_timestamp := Some 0, last_assistant_item := JStr ''item_1'',
       mark_queue := [''responsePart'']\<rparr>"
  unfolding audio_delta_message_def
  by (subst audio_delta_effect [where delta = "JStr ''QUJD''" and raw = "[65, 66, 67]"])
    (simp_all add: b64decode_QUJD b64encode_ABC started_session_def create_session_def
      del: b64encode.simps b64decode.simps)

text \<open>
  Claim C10. For every audio delta whose \<open>delta\<close> is a canonical base64 string, the payload
  of the outbound telephony media frame is that string: decoding it and encoding the bytes
  again gives the string back.
\<close>

theorem audio_payload_passthrough:
  assumes "map_of kvs ''delta'' = Some (JStr s)" and "canonical_b64 s"
  shows "twilio_ws (handle_audio_delta (JObj kvs) r) =
           twilio_ws r @
             JObj [(''event'', JStr ''media''), (''streamSid'', stream_sid r),
                   (''media'', JObj [(''payload'', JStr s)])]
             # (if truthy (stream_sid r) then [mark_event (stream_sid r)] else [])"
proof -
  from canonical_b64decode [OF assms(2)] obtain raw where
    dec: "b64decode (JStr s) = Inr raw" and enc: "b64encode raw = s" by blast
  show ?thesis
    using handle_audio_delta_decoded [OF assms(1) dec, of r] enc by simp
qed

theorem audio_payload_passthrough_witness:
  "canonical_b64 ''QUJD'' \<and>
   twilio_ws (handle_audio_delta (audio_delta_message ''item_1'' ''QUJD'') started_session) =
     [JObj [(''event'', JStr ''media''), (''streamSid'', JStr ''MZ1''),
            (''media'', JObj [(''payload'', JStr ''QUJD'')])],
      mark_event (JStr ''MZ1'')]"
  unfolding audio_delta_message_def
  by (subst audio_payload_passthrough [where s = "''QUJD''"])
    (simp_all add: canonical_QUJD started_session_def create_session_def
      del: b64encode.simps b64decode.simps canonical_b64.simps)

section \<open>The mark queue under both pumps\<close>

lemma arrive_audio_delta:
  assumes "classify a = Some AudioDelta"
  shows "fst (arrive a r) = None
       \<and> mark_queue (snd (arrive a r)) =
           mark_queue r @ (if truthy (stream_sid r) then [''responsePart''] else [])
       \<and> stream_sid (snd (arrive a r)) = stream_sid r"
proof -
  from assms obtain response where a: "a = FromOpenAI (Some response)"
    by (cases a rule: classify.cases) (simp_all split: sum.splits if_splits)
  from assms a obtain ty where t: "py_getitem response ''type'' = Inr ty"
    by (cases "py_getitem response ''type''") simp_all
  from assms a t have ty: "ty = JStr ''response.audio.delta''" and dec: "decodable response"
    by (simp_all split: if_splits)
  from dec obtain delta where d: "py_getitem response ''delta'' = Inr delta"
    by (cases "py_getitem response ''delta''") (simp_all add: decodable_def)
  from dec d obtain raw where raw: "b64decode delta = Inr raw"
    by (cases "b64decode delta") (simp_all add: decodable_def)
  from d obtain kvs where kvs: "response = JObj kvs" and md: "map_of kvs ''delta'' = Some delta"
    by (cases response) (simp_all split: option.splits)
  have "arrive a r = (None, handle_audio_delta (JObj kvs) r)"
    using t ty md
    by (simp add: a kvs openai_message_def no_callbacks_def run_response_callback_def)
  then show ?thesis
    by (simp add: handle_audio_delta_decoded [OF md raw])
qed

lemma arrive_mark:
  assumes "classify a = Some Mark"
  shows "arrive a r = (None, if mark_queue r \<noteq> [] then r\<lparr>mark_queue := tl (mark_queue r)\<rparr> else r)"
proof -
  from assms obtain data where a: "a = FromTwilio (Some data)"
    by (cases a rule: classify.cases) (simp_all split: sum.splits if_splits)
  from assms a obtain ev where e: "py_getitem data ''event'' = Inr ev"
    by (cases "py_getitem data ''event''") simp_all
  from assms a e have ev: "ev = JStr ''mark''"
    by (simp split: if_splits)
  show ?thesis by (simp add: a e ev twilio_message_def)
qed

lemma handle_audio_delta_undecodable:
  assumes "map_of kvs ''delta'' = Some delta" and "b64decode delta = Inl e"
  shows "handle_audio_delta (JObj kvs) r = log_error ''handle_audio_delta'' e r"
  using assms by (simp add: handle_audio_delta_def)

lemma arrive_other_twilio:
  assumes "classify (FromTwilio m) = Some Other"
  shows "fst (arrive (FromTwilio m) r) = None
       \<and> mark_queue (snd (arrive (FromTwilio m) r)) = mark_queue r
       \<and> stream_sid (snd (arrive (FromTwilio m) r)) = stream_sid r"
proof -
  from assms obtain data where m: "m = Some data" by (cases m) simp_all
  from assms m obtain ev where e: "py_getitem data ''event'' = Inr ev"
    by (cases "py_getitem data ''event''") simp_all
  from assms m e have nm: "ev \<noteq> JStr ''mark''"
    by (cases "ev = JStr ''mark''") simp_all
  show ?thesis
  proof (cases "ev = JStr ''media''")
    case True
    with assms m e nm obtain f where "media_frame (Some data) = Some f"
      by (cases "media_frame (Some data)") simp_all
    then obtain t p where "media_frame (Some data) = Some (t, p)" by (cases f) simp
    from media_frame_step [OF this, of None r] show ?thesis
      by (simp add: m ws_send_def)
  next
    case False
    with assms m e nm have ns: "ev \<noteq> JStr ''start''"
      by (cases "ev = JStr ''start''") simp_all
    from False nm ns show ?thesis
      by (simp add: m e twilio_message_def)
  qed
qed

lemma arrive_other_openai:
  assumes "classify (FromOpenAI m) = Some Other"
  shows "fst (arrive (FromOpenAI m) r) = None
       \<and> mark_queue (snd (arrive (FromOpenAI m) r)) = mark_queue r
       \<and> stream_sid (snd (arrive (FromOpenAI m) r)) = stream_sid r"
proof -
  from assms obtain response where m: "m = Some response" by (cases m) simp_all
  from assms m obtain ty where t: "py_getitem response ''type'' = Inr ty"
    by (cases "py_getitem response ''type''") simp_all
  show ?thesis
  proof (cases "ty = JStr ''response.audio.delta''")
    case True
    show ?thesis
    proof (cases "py_in ''delta'' response")
      case pin: True
      then obtain kvs delta where kvs: "response = JObj kvs"
        and md: "map_of kvs ''delta'' = Some delta"
        by (cases response) auto
      from assms m t True pin have "\<not> decodable response"
        by (cases "decodable response") simp_all
      with kvs md obtain e where "b64decode delta = Inl e"
        by (cases "b64decode delta") (simp_all add: decodable_def)
      from handle_audio_delta_undecodable [OF md this, of r] t True md
      show ?thesis
        by (simp add: m kvs openai_message_def no_callbacks_def run_response_callback_def
            log_error_def)
    next
      case False
      with t True show ?thesis
        by (simp add: m openai_message_def)
    qed
  next
    case False
    with assms m t have ns: "ty \<noteq> JStr ''input_audio_buffer.speech_started''"
      by (cases "ty = JStr ''input_audio_buffer.speech_started''") simp_all
    from False ns t show ?thesis
      by (simp add: m openai_message_def no_callbacks_def run_response_callback_def)
  qed
qed

lemma arrive_other:
  assumes "classify a = Some Other"
  shows "fst (arrive a r) = None
       \<and> mark_queue (snd (arrive a r)) = mark_queue r
       \<and> stream_sid (snd (arrive a r)) = stream_sid r"
proof (cases a)
  case (FromTwilio m)
  with assms arrive_other_twilio [of m r] show ?thesis by simp
next
  case (FromOpenAI m)
  with assms arrive_other_openai [of m r] show ?thesis by simp
qed

lemma arrivals_queue:
  "truthy (stream_sid r) \<Longrightarrow> map classify evs = map Some ks \<Longrightarrow>
   fst (arrivals evs r) = None \<and> mark_queue (snd (arrivals evs r)) = queue_after ks (mark_queue r)"
proof (induction evs arbitrary: ks r)
  case Nil
  then show ?case by simp
next
  case (Cons a evs)
  then obtain k ks' where ks: "ks = k # ks'" and k: "classify a = Some k"
    and rest: "map classify evs = map Some ks'"
    by (cases ks) auto
  show ?case
  proof (cases k)
    case AudioDelta
    from arrive_audio_delta [of a r] k AudioDelta Cons.prems(1)
    obtain r' where step: "arrive a r = (None, r')"
      and q: "mark_queue r' = mark_queue r @ [''responsePart'']"
      and sid: "stream_sid r' = stream_sid r"
      by (cases "arrive a r") auto
    from Cons.IH [of r' ks'] rest sid Cons.prems(1) q step ks AudioDelta
    show ?thesis by simp
  next
    case Mark
    from arrive_mark [of a r] k Mark
    have step: "arrive a r = (None, if mark_queue r \<noteq> [] then r\<lparr>mark_queue := tl (mark_queue r)\<rparr> else r)"
      by simp
    let ?r' = "if mark_queue r \<noteq> [] then r\<lparr>mark_queue := tl (mark_queue r)\<rparr> else r"
    have sid: "truthy (stream_sid ?r')" using Cons.prems(1) by simp
    from Cons.IH [OF sid rest] step ks Mark
    show ?thesis by (cases "mark_queue r = []") simp_all
  next
    case Other
    from arrive_other [of a r] k Other
    obtain r' where step: "arrive a r = (None, r')"
      and q: "mark_queue r' = mark_queue r"
      and sid: "stream_sid r' = stream_sid r"
      by (cases "arrive a r") auto
    from Cons.IH [of r' ks'] rest sid Cons.prems(1) q step ks Other
    show ?thesis by simp
  qed
qed

lemma queue_after_length:
  "length (queue_after ks q) + count_list ks Mark =
     length q + count_list ks AudioDelta + ignored_marks ks (length q)"
proof (induction ks arbitrary: q)
  case Nil
  then show ?case by simp
next
  case (Cons k ks)
  show ?case
  proof (cases k)
    case AudioDelta
    with Cons [of "q @ [''responsePart'']"] show ?thesis by simp
  next
    case Mark
    show ?thesis
    proof (cases "q = []")
      case True
      with Mark Cons [of "[]"] show ?thesis by simp
    next
      case False
      then obtain x xs where q: "q = x # xs" by (cases q) simp_all
      with Mark Cons [of xs] show ?thesis by simp
    qed
  next
    case Other
    with Cons [of q] show ?thesis by simp
  qed
qed

lemma classify_mark_message: "classify (FromTwilio mark_message) = Some Mark"
  by (simp add: mark_message_def)

lemma classify_audio_delta_message:
  "classify (FromOpenAI (Some (audio_delta_message ''item_1'' ''QUJD''))) = Some AudioDelta"
  by (simp add: audio_delta_message_def decodable_def b64decode_QUJD del: b64decode.simps)

lemma classify_media_message:
  "classify (FromTwilio (media_message ''1450'' ''QUJD'')) = Some Other"
  using media_message_1450 [unfolded media_message_def]
  by (simp add: media_message_def)

lemma b64decode_Q: "b64decode (JStr ''Q'') = Inl BinasciiError"
  by (simp add: a2b_base64_def table_a2b_base64_def b64_alphabet_def)

lemma arrivals_single: "arrivals [a] r = arrive a r"
  by (cases "arrive a r") (auto split: option.splits)

text \<open>
  Claim C6 as stated asks that the length of the mark queue is the number of audio deltas
  processed minus the number of marks processed. One audio delta processed in a session
  whose \<open>stream_sid\<close> is unset, with no mark at all, leaves the queue empty; so does one
  audio delta whose payload does not decode, in a session whose \<open>stream_sid\<close> is set.
\<close>

theorem mark_queue_accounting_counterexample:
  "map classify [FromOpenAI (Some (audio_delta_message ''item_1'' ''QUJD''))] = [Some AudioDelta]
   \<and> mark_queue (snd (arrivals [FromOpenAI (Some (audio_delta_message ''item_1'' ''QUJD''))]
        (create_session ''CA1''))) = []
   \<and> mark_queue (snd (arrivals [FromOpenAI (Some (audio_delta_message ''item_1'' ''Q''))]
        started_session)) = []"
proof -
  have unset: "mark_queue (snd (arrive (FromOpenAI (Some (audio_delta_message ''item_1'' ''QUJD'')))
      (create_session ''CA1''))) = []"
    using arrive_audio_delta [OF classify_audio_delta_message, of "create_session ''CA1''"]
    by (simp add: create_session_def)
  have bad: "handle_audio_delta (audio_delta_message ''item_1'' ''Q'') started_session =
      log_error ''handle_audio_delta'' BinasciiError started_session"
    unfolding audio_delta_message_def
    by (rule handle_audio_delta_undecodable [OF _ b64decode_Q]) simp
  have undec: "arrive (FromOpenAI (Some (audio_delta_message ''item_1'' ''Q''))) started_session =
      (None, handle_audio_delta (audio_delta_message ''item_1'' ''Q'') started_session)"
    by (simp add: audio_delta_message_def openai_message_def no_callbacks_def
        run_response_callback_def)
  have start: "mark_queue started_session = []"
    by (simp add: started_session_def create_session_def)
  have dropped: "mark_queue (snd (arrive (FromOpenAI (Some (audio_delta_message ''item_1'' ''Q'')))
      started_session)) = []"
    by (simp only: undec bad snd_conv) (simp add: log_error_def start)
  have kinds: "map classify [FromOpenAI (Some (audio_delta_message ''item_1'' ''QUJD''))] =
      [Some AudioDelta]"
    by (simp add: classify_audio_delta_message del: classify.simps)
  show ?thesis
    by (simp only: arrivals_single unset dropped kinds)
qed

text \<open>
  Claim C6, as the code has it. In a session whose \<open>stream_sid\<close> is set, take any
  interleaved sequence of arrivals of a window between two interruptions: audio deltas,
  marks, and any other arrival that is processed without raising and is not the start of a
  stream (\<open>Media\<close> frames, other telephony events, other events of the model, audio deltas
  whose payload does not decode). No exception is raised and the mark queue is the one the
  specification describes: each audio delta with a decodable payload appends one token,
  each mark removes the first token, a mark that arrives at the empty queue is ignored, and
  no other arrival touches the queue. So the length never goes below zero, and it is the
  length before, plus the number of decodable audio deltas, minus the number of marks that
  were not ignored.
\<close>

theorem mark_queue_accounting:
  assumes "truthy (stream_sid r)" and "map classify evs = map Some ks"
  shows "fst (arrivals evs r) = None
       \<and> mark_queue (snd (arrivals evs r)) = queue_after ks (mark_queue r)
       \<and> length (mark_queue (snd (arrivals evs r))) + count_list ks Mark =
           length (mark_queue r) + count_list ks AudioDelta + ignored_marks ks (length (mark_queue r))"
  using arrivals_queue [OF assms] queue_after_length [of ks "mark_queue r"] by simp

theorem mark_queue_accounting_witness:
  "fst (arrivals [FromTwilio mark_message, FromTwilio (media_message ''1450'' ''QUJD''),
                  FromOpenAI (Some (audio_delta_message ''item_1'' ''QUJD'')),
                  FromOpenAI (Some (audio_delta_message ''item_1'' ''QUJD'')),
                  FromTwilio mark_message] started_session) = None
   \<and> mark_queue (snd (arrivals [FromTwilio mark_message, FromTwilio (media_message ''1450'' ''QUJD''),
                  FromOpenAI (Some (audio_delta_message ''item_1'' ''QUJD'')),
                  FromOpenAI (Some (audio_delta_message ''item_1'' ''QUJD'')),
                  FromTwilio mark_message] started_session)) = [''responsePart'']
   \<and> (1::nat) + 2 = 0 + 2 + 1"
proof -
  have sid: "truthy (stream_sid started_session)"
    by (simp add: started_session_def create_session_def)
  have kinds: "map classify [FromTwilio mark_message, FromTwilio (media_message ''1450'' ''QUJD''),
                  FromOpenAI (Some (audio_delta_message ''item_1'' ''QUJD'')),
                  FromOpenAI (Some (audio_delta_message ''item_1'' ''QUJD'')),
                  FromTwilio mark_message] = map Some [Mark, Other, AudioDelta, AudioDelta, Mark]"
    by (simp add: classify_mark_message classify_media_message classify_audio_delta_message
        del: classify.simps)
  have start: "mark_queue started_session = []"
    by (simp add: started_session_def create_session_def)
  show ?thesis
    using mark_queue_accounting [OF sid kinds]
    by (simp add: start)
qed

section \<open>Side-channel events\<close>

lemma openai_loop_append:
  "openai_loop cbs pre r = (None, r', evs) \<Longrightarrow>
   openai_loop cbs (pre @ ms) r =
     (case openai_loop cbs ms r' of (e, r'', evs') \<Rightarrow> (e, r'', evs @ evs'))"
proof (induction pre arbitrary: r evs)
  case Nil
  then show ?case by (cases "openai_loop cbs ms r'") simp
next
  case (Cons m pre)
  obtain e0 r0 ev0 where m: "openai_message cbs m r = (e0, r0, ev0)"
    by (cases "openai_message cbs m r") auto
  from Cons.prems m have e0: "e0 = None" by (cases e0) simp_all
  obtain e1 r1 ev1 where l: "openai_loop cbs pre r0 = (e1, r1, ev1)"
    by (cases "openai_loop cbs pre r0") auto
  from Cons.prems m e0 l have res: "e1 = None" "r1 = r'" "evs = ev0 @ ev1" by simp_all
  from Cons.IH [of r0 ev1] l res
  have "openai_loop cbs (pre @ ms) r0 =
      (case openai_loop cbs ms r' of (e, r'', evs') \<Rightarrow> (e, r'', ev1 @ evs'))"
    by simp
  with m e0 res show ?case
    by (cases "openai_loop cbs ms r'") simp
qed

lemma side_event_message:
  assumes "py_getitem response ''type'' = Inr (JStr ty)"
    and "(ty, kind) \<in> {(''conversation.item.created'', ''conversation_item''),
                       (''response.function_call_arguments.delta'', ''rag_query''),
                       (''response.done'', ''response_complete'')}"
  shows "openai_message cbs (Some response) r =
           (None, r, [JObj [(''type'', JStr kind), (''data'', response),
                            (''session_id'', JStr (session_id r))]])"
proof -
  from assms(2) consider
      (created) "ty = ''conversation.item.created''" and "kind = ''conversation_item''"
    | (fcall) "ty = ''response.function_call_arguments.delta''" and "kind = ''rag_query''"
    | (rdone) "ty = ''response.done''" and "kind = ''response_complete''"
    by blast
  then show ?thesis
  proof cases
    case created
    with assms(1) show ?thesis by (simp add: openai_message_def side_event_def)
  next
    case fcall
    with assms(1) show ?thesis by (simp add: openai_message_def side_event_def)
  next
    case rdone
    with assms(1) show ?thesis by (simp add: openai_message_def side_event_def)
  qed
qed

text \<open>
  Claim C8. When the model-to-telephony pump processes a \<^verbatim>\<open>conversation.item.created\<close>,
  \<^verbatim>\<open>response.function_call_arguments.delta\<close> or \<^verbatim>\<open>response.done\<close> event, after any messages
  it has processed without raising and before any messages that follow, it raises nothing
  for the event, yields exactly one event to its consumer (of type \<^verbatim>\<open>conversation_item\<close>,
  \<^verbatim>\<open>rag_query\<close> or \<^verbatim>\<open>response_complete\<close>, with the event as its data and the session id),
  right after the events yielded before, and goes on with the following messages from the
  very session it had before the event: the mark queue, \<open>last_assistant_item\<close>, both
  timestamps, \<open>stream_sid\<close>, \<open>is_active\<close> and both websockets are unchanged.
\<close>

theorem side_channel_events:
  assumes "py_getitem response ''type'' = Inr (JStr ty)"
    and "(ty, kind) \<in> {(''conversation.item.created'', ''conversation_item''),
                       (''response.function_call_arguments.delta'', ''rag_query''),
                       (''response.done'', ''response_complete'')}"
    and "handle_openai_to_twilio cbs before r0 = (None, r, evs)"
  shows "openai_message cbs (Some response) r =
           (None, r, [JObj [(''type'', JStr kind), (''data'', response),
                            (''session_id'', JStr (session_id r))]])
       \<and> handle_openai_to_twilio cbs (before @ Some response # after) r0 =
           (case handle_openai_to_twilio cbs after r of
              (e, r', evs') \<Rightarrow>
                (e, r', evs @ JObj [(''type'', JStr kind), (''data'', response),
                                    (''session_id'', JStr (session_id r))] # evs'))"
proof -
  note step = side_event_message [OF assms(1,2), of cbs r]
  from assms(3) have pre: "openai_loop cbs before r0 = (None, r, evs)"
    by (cases "openai_loop cbs before r0" rule: prod_cases3)
      (auto simp add: handle_openai_to_twilio_def split: option.splits)
  obtain e r' evs' where post: "openai_loop cbs after r = (e, r', evs')"
    by (cases "openai_loop cbs after r") auto
  have "openai_loop cbs (before @ Some response # after) r0 =
      (e, r', evs @ JObj [(''type'', JStr kind), (''data'', response),
                          (''session_id'', JStr (session_id r))] # evs')"
    using openai_loop_append [OF pre, of "Some response # after"] step post by simp
  with post step show ?thesis
    by (cases e) (simp_all add: handle_openai_to_twilio_def)
qed

theorem side_channel_events_witness:
  "handle_openai_to_twilio no_callbacks [Some item_created_message, Some response_done_message]
      started_session =
     (None, started_session,
      [JObj [(''type'', JStr ''conversation_item''), (''data'', item_created_message),
             (''session_id'', JStr ''CA1'')],
       JObj [(''type'', JStr ''response_complete''), (''data'', response_done_message),
             (''session_id'', JStr ''CA1'')]])"
proof -
  have sid: "session_id started_session = ''CA1''"
    by (simp add: started_session_def create_session_def)
  have none: "handle_openai_to_twilio no_callbacks [] started_session = (None, started_session, [])"
    by (simp add: handle_openai_to_twilio_def)
  have ty1: "py_getitem item_created_message ''type'' = Inr (JStr ''conversation.item.created'')"
    by (simp add: item_created_message_def)
  have k1: "(''conversation.item.created'', ''conversation_item'') \<in>
      {(''conversation.item.created'', ''conversation_item''),
       (''response.function_call_arguments.delta'', ''rag_query''),
       (''response.done'', ''response_complete'')}"
    by simp
  have ty2: "py_getitem response_done_message ''type'' = Inr (JStr ''response.done'')"
    by (simp add: response_done_message_def)
  have k2: "(''response.done'', ''response_complete'') \<in>
      {(''conversation.item.created'', ''conversation_item''),
       (''response.function_call_arguments.delta'', ''rag_query''),
       (''response.done'', ''response_complete'')}"
    by simp
  have first: "handle_openai_to_twilio no_callbacks [Some item_created_message] started_session =
      (None, started_session,
       [JObj [(''type'', JStr ''conversation_item''), (''data'', item_created_message),
              (''session_id'', JStr ''CA1'')]])"
    using side_channel_events [OF ty1 k1 none, of "[]"] none by (simp add: sid)
  show ?thesis
    using side_channel_events [OF ty2 k2 first, of "[]"] none by (simp add: sid)
qed

section \<open>Teardown\<close>

lemma cleanup_absent:
  "active_sessions s cid = None \<Longrightarrow> cleanup_call_session env cid s = s"
  by (simp add: cleanup_call_session_def)

lemma disconnect_active: "active_sessions (disconnect sid s) = active_sessions s"
  by (cases "connections s sid") (simp_all add: disconnect_def)

lemma cleanup_removes: "active_sessions (cleanup_call_session env cid s) cid = None"
proof (cases "active_sessions s cid")
  case None
  then show ?thesis by (simp add: cleanup_call_session_def)
next
  case (Some cs)
  then show ?thesis
    by (simp add: cleanup_call_session_def Let_def disconnect_active)
qed

text \<open>
  Claim C9. Teardown is idempotent: for a session id that is not among the active
  sessions, \<open>cleanup_call_session\<close> changes nothing and calls no collaborator; and since a
  teardown always removes the id from the active sessions, a second teardown of the same id,
  at whatever time it runs, leaves the state of the first.
\<close>

theorem teardown_idempotent:
  "(active_sessions s cid = None \<longrightarrow> cleanup_call_session env cid s = s)
   \<and> cleanup_call_session env' cid (cleanup_call_session env cid s) =
       cleanup_call_session env cid s"
  using cleanup_absent [of s cid env]
    cleanup_absent [OF cleanup_removes [of env cid s], of env']
  by simp

theorem teardown_idempotent_witness:
  "active_sessions (cleanup_call_session example_env ''s1'' example_server) ''s1'' = None
   \<and> effects (cleanup_call_session example_env ''s1'' example_server) =
       [SaveCallMetrics
          \<lparr>m_user_id = Some ''u1'', m_call_id = ''CA1'', m_call_duration = 61,
           m_transcript = [], m_summary = ''No conversation recorded'', m_start_time = 0,
           m_end_time = 61500000, m_vendor_details = None\<rparr>,
        CloseSession (started_session\<lparr>is_active := False\<rparr>)]
   \<and> cleanup_call_session example_env ''s1''
        (cleanup_call_session example_env ''s1'' example_server) =
       cleanup_call_session example_env ''s1'' example_server"
proof -
  have a: "active_sessions (cleanup_call_session example_env ''s1'' example_server) ''s1'' = None"
    by (simp add: cleanup_call_session_def disconnect_def example_server_def example_call_def
        example_env_def Let_def)
  have e: "effects (cleanup_call_session example_env ''s1'' example_server) =
       [SaveCallMetrics
          \<lparr>m_user_id = Some ''u1'', m_call_id = ''CA1'', m_call_duration = 61,
           m_transcript = [], m_summary = ''No conversation recorded'', m_start_time = 0,
           m_end_time = 61500000, m_vendor_details = None\<rparr>,
        CloseSession (started_session\<lparr>is_active := False\<rparr>)]"
    by (simp add: cleanup_call_session_def disconnect_def example_server_def example_call_def
        example_env_def close_session_def total_seconds_def Let_def)
  show ?thesis
    using teardown_idempotent [of "cleanup_call_session example_env ''s1'' example_server"
        "''s1''" example_env example_env] a e
    by simp
qed

end
